theory Spec2Isabelle
  imports Complex_Main "HOL-Library.Sublist"
begin

section \<open>Data model of app.py\<close>

text \<open>
  The application keeps four sheets of one workbook (\<open>cms_data.xlsx\<close>): clients, orders,
  payments and costs. The columns are the ones \<open>init_excel\<close> writes. A row is a record
  with one field per column. Three column names occur in more than one sheet; the later
  sheets carry a prefix: \<open>order_client_id\<close> is the column \<open>client_id\<close> of the orders
  sheet, \<open>payment_order_id\<close> the column \<open>order_id\<close> of the payments sheet, and the
  three \<open>notes\<close> columns are \<open>client_notes\<close>, \<open>payment_notes\<close> and \<open>cost_notes\<close>
  (\<open>notes\<close> alone is a reserved word).

  Identifiers are Python integers (\<open>int\<close>). Amounts, weights and fees come from
  \<open>st.number_input(min_value=0.0)\<close>; they are modelled as \<open>real\<close>, so rounding of
  binary floating point and NaN in numeric columns are outside the model. Dates are
  stored as the text \<open>sql_date\<close> produces.
\<close>

text \<open>
  A cell as pandas holds it: missing (\<open>NaN\<close>), a text or a number. \<open>read_excel\<close>
  gives \<open>NaN\<close> for a blank cell, so a client saved with a blank name is read back
  with the name \<open>NaN\<close>. The column \<open>full_name\<close> is modelled by cells, because the code
  compares it with a value picked from the same column, and a missing cell equals nothing,
  not even itself. The other text columns are only compared with literals, where a
  missing cell behaves like any text that differs from them, so they are plain strings.
\<close>

datatype cell = NaN | Text string | Num real

text \<open>\<open>==\<close> on cells, as in \<open>df["full_name"] == client_to_delete\<close>.\<close>

definition cell_eq :: "cell \<Rightarrow> cell \<Rightarrow> bool" where
  "cell_eq a b = (a \<noteq> NaN \<and> a = b)"

record client_row =
  client_id :: int
  full_name :: cell
  phone :: string
  email :: string
  address :: string
  client_notes :: string

record order_row =
  order_id :: int
  order_client_id :: int
  service_type :: string
  weight_count :: real
  pickup_date :: string
  due_date :: string
  status :: string
  special_instructions :: string
  delivery_fee :: real
  total_fee :: real

record payment_row =
  payment_id :: int
  payment_order_id :: int
  amount_paid :: real
  payment_date :: string
  payment_method :: string
  payment_status :: string
  payment_notes :: string

record cost_row =
  expense_id :: int
  date_incurred :: string
  category :: string
  description :: string
  amount :: real
  fixed_variable :: string
  cost_notes :: string

text \<open>The exceptions of Python that the modelled code can raise.\<close>

datatype py_error = KeyError | IndexError | ValueError | AttributeError

text \<open>
  A pandas DataFrame over rows of type \<open>'r\<close>. \<open>NoColumns\<close> is \<open>pd.DataFrame()\<close>,
  the frame without columns and rows that \<open>load_data\<close> returns when reading fails;
  \<open>Frame rs\<close> has the columns of its sheet and the rows \<open>rs\<close>, in order.
\<close>

datatype 'r frame = NoColumns | Frame "'r list"

text \<open>\<open>df.empty\<close>: no rows (or no columns).\<close>

fun empty_df :: "'r frame \<Rightarrow> bool" where
  "empty_df NoColumns = True"
| "empty_df (Frame rs) = (rs = [])"

text \<open>The rows of a frame; \<open>len(df)\<close> is their number.\<close>

fun rows :: "'r frame \<Rightarrow> 'r list" where
  "rows NoColumns = []"
| "rows (Frame rs) = rs"

text \<open>
  \<open>df[df[col] ...]\<close>: selection of the rows whose column satisfies a condition. The
  column lookup \<open>df[col]\<close> raises KeyError on a frame without columns.
\<close>

fun select :: "('r \<Rightarrow> bool) \<Rightarrow> 'r frame \<Rightarrow> py_error + 'r frame" where
  "select p NoColumns = Inl KeyError"
| "select p (Frame rs) = Inr (Frame (filter p rs))"

section \<open>Fee calculator\<close>

text \<open>\<open>service.startswith(k)\<close>.\<close>

definition startswith :: "string \<Rightarrow> string \<Rightarrow> bool" where
  "startswith s k = prefix k s"

text \<open>The dictionary \<open>rates\<close> of \<open>calculate_fee\<close>, in insertion order.\<close>

definition rates :: "(string \<times> int) list" where
  "rates = [(''WDF'', 500), (''WDI'', 700), (''Iron Only'', 200), (''Bedding'', 1200)]"

text \<open>
  \<open>next((v for k,v in rates.items() if service.startswith(k)), 500)\<close>: the value of
  the first key that is a prefix of the service, 500 when there is none.
\<close>

definition rate :: "string \<Rightarrow> int" where
  "rate service =
     (case filter (\<lambda>(k, v). startswith service k) rates of
        [] \<Rightarrow> 500
      | (k, v) # _ \<Rightarrow> v)"

text \<open>
  \<open>x or 0\<close> on an optional number: \<open>None\<close> and zero are falsy and give 0, any other
  number gives itself.
\<close>

fun or_zero :: "real option \<Rightarrow> real" where
  "or_zero None = 0"
| "or_zero (Some x) = (if x = 0 then 0 else x)"

definition calculate_fee :: "string \<Rightarrow> real option \<Rightarrow> real option \<Rightarrow> real" where
  "calculate_fee service weight delivery =
     real_of_int (rate service) * or_zero weight + or_zero delivery"

section \<open>Identifier generation\<close>

text \<open>\<open>int(x)\<close> on a Python float: truncation towards zero.\<close>

definition py_int :: "real \<Rightarrow> int" where
  "py_int x = (if 0 \<le> x then \<lfloor>x\<rfloor> else \<lceil>x\<rceil>)"

text \<open>
  \<open>next_id(df, id_col)\<close>. The column \<open>id_col\<close> is given as the function that reads it
  from a row; a numeric pandas column holds integers or floats, both read as \<open>real\<close>.
\<close>

definition next_id :: "'r frame \<Rightarrow> ('r \<Rightarrow> real) \<Rightarrow> int" where
  "next_id df id_col =
     (if \<not> empty_df df then py_int (Max (set (map id_col (rows df)))) + 1 else 1)"

section \<open>The workbook and its storage adapter\<close>

text \<open>
  The state of the file \<open>cms_data.xlsx\<close>, which \<open>init_excel\<close> creates before any page
  runs. A sheet is \<open>None\<close> when \<open>pd.read_excel\<close> cannot read it (the sheet is missing
  or damaged) and \<open>Some df\<close> when it reads as the frame \<open>df\<close>. The field \<open>saved\<close> is
  the trace of the calls of \<open>save_data\<close>: the names of the sheets written, oldest first.
\<close>

record workbook =
  clients_sheet :: "client_row frame option"
  orders_sheet :: "order_row frame option"
  payments_sheet :: "payment_row frame option"
  costs_sheet :: "cost_row frame option"
  saved :: "string list"

text \<open>\<open>pd.read_excel(FILE_PATH, sheet_name=sheet)\<close> on the content of one sheet.\<close>

fun read_excel :: "'r frame option \<Rightarrow> py_error + 'r frame" where
  "read_excel None = Inl ValueError"
| "read_excel (Some df) = Inr df"

text \<open>\<open>load_data(sheet)\<close>: any exception of the read is caught and gives \<open>pd.DataFrame()\<close>.\<close>

definition load_data :: "'r frame option \<Rightarrow> 'r frame" where
  "load_data sheet = (case read_excel sheet of Inl _ \<Rightarrow> NoColumns | Inr df \<Rightarrow> df)"

text \<open>
  \<open>save_data(sheet, df)\<close> replaces one sheet of the workbook and leaves the others. The
  four sheets hold rows of four types, so there is one instance per sheet name.
\<close>

definition save_clients :: "client_row frame \<Rightarrow> workbook \<Rightarrow> workbook" where
  "save_clients df wb = wb\<lparr>clients_sheet := Some df, saved := saved wb @ [''clients'']\<rparr>"

definition save_orders :: "order_row frame \<Rightarrow> workbook \<Rightarrow> workbook" where
  "save_orders df wb = wb\<lparr>orders_sheet := Some df, saved := saved wb @ [''orders'']\<rparr>"

definition save_payments :: "payment_row frame \<Rightarrow> workbook \<Rightarrow> workbook" where
  "save_payments df wb = wb\<lparr>payments_sheet := Some df, saved := saved wb @ [''payments'']\<rparr>"

text \<open>
  How a button handler ends: it runs to its end, or an exception stops it. Either way
  the workbook is what the calls of \<open>save_data\<close> made so far have left on disk.
\<close>

datatype outcome = Done workbook | Raised py_error workbook

fun final :: "outcome \<Rightarrow> workbook" where
  "final (Done wb) = wb"
| "final (Raised e wb) = wb"

text \<open>
  Sequencing after a selection: the exception of a failed selection ends the handler with
  the workbook \<open>wb\<close> written so far, otherwise the handler goes on with the selected frame.
\<close>

fun on_frame :: "py_error + 'r frame \<Rightarrow> workbook \<Rightarrow> ('r frame \<Rightarrow> outcome) \<Rightarrow> outcome" where
  "on_frame (Inl e) wb k = Raised e wb"
| "on_frame (Inr df) wb k = k df"

section \<open>Clients page: the delete-client handler\<close>

text \<open>
  \<open>st.selectbox(label, options, index)\<close>: the option the user has picked. \<open>pick\<close> is
  the position picked, \<open>None\<close> when the user has left the box as it came up, which
  shows the option at \<open>index\<close>; a position the box does not offer is no pick. Without
  options the box returns Python's \<open>None\<close>.
\<close>

fun selectbox :: "'a list \<Rightarrow> nat \<Rightarrow> nat option \<Rightarrow> 'a option" where
  "selectbox [] index pick = None"
| "selectbox (x # xs) index None = Some ((x # xs) ! index)"
| "selectbox (x # xs) index (Some j) =
     Some ((x # xs) ! (if j < length (x # xs) then j else index))"

text \<open>
  Lines 175 to 191 of app.py, for the value \<open>client_to_delete\<close> of the select box,
  with the button pressed and the confirmation ticked. \<open>.values[0]\<close> raises IndexError
  when no row carries the name.
\<close>

definition delete_client :: "cell \<Rightarrow> workbook \<Rightarrow> outcome" where
  "delete_client client_to_delete wb =
     (let df = load_data (clients_sheet wb) in
      if \<not> empty_df df then
        on_frame (select (\<lambda>r. cell_eq (full_name r) client_to_delete) df) wb (\<lambda>named.
        case map client_id (rows named) of
          [] \<Rightarrow> Raised IndexError wb
        | cid # _ \<Rightarrow>
            on_frame (select (\<lambda>r. client_id r \<noteq> cid) df) wb (\<lambda>df'.
            let wb1 = save_clients df' wb;
                orders = load_data (orders_sheet wb1);
                payments = load_data (payments_sheet wb1)
            in if \<not> empty_df orders then
                 on_frame (select (\<lambda>r. order_client_id r = cid) orders) wb1 (\<lambda>client_orders.
                 on_frame (select (\<lambda>r. order_client_id r \<noteq> cid) orders) wb1 (\<lambda>orders'.
                 let wb2 = save_orders orders' wb1
                 in if \<not> empty_df payments \<and> \<not> empty_df client_orders then
                      on_frame
                        (select (\<lambda>r. payment_order_id r \<notin> set (map order_id (rows client_orders)))
                           payments) wb2 (\<lambda>payments'.
                      Done (save_payments payments' wb2))
                    else Done wb2))
               else Done wb1))
      else Done wb)"

text \<open>
  Lines 175 to 191 with the select box of line 177: its options are the column
  \<open>full_name\<close>, one per client row and in their order, so the box hands over a name,
  not a row. Python's \<open>None\<close> equals no cell, like \<open>NaN\<close>.
\<close>

definition delete_client_page :: "nat option \<Rightarrow> workbook \<Rightarrow> outcome" where
  "delete_client_page pick wb =
     (let df = load_data (clients_sheet wb) in
      if \<not> empty_df df then
        (let client_to_delete =
               (case selectbox (map full_name (rows df)) 0 pick of
                  None \<Rightarrow> NaN
                | Some name \<Rightarrow> name)
         in delete_client client_to_delete wb)
      else Done wb)"

section \<open>Orders page: the update-status and delete-order handlers\<close>

text \<open>
  \<open>df.loc[df[col] ..., field] = v\<close>: assignment to one field of the rows whose column
  satisfies a condition. The column lookup raises KeyError on a frame without columns.
\<close>

fun loc_assign :: "('r \<Rightarrow> bool) \<Rightarrow> ('r \<Rightarrow> 'r) \<Rightarrow> 'r frame \<Rightarrow> py_error + 'r frame" where
  "loc_assign p upd NoColumns = Inl KeyError"
| "loc_assign p upd (Frame rs) = Inr (Frame (map (\<lambda>r. if p r then upd r else r) rs))"


text \<open>
  Lines 279 and 302 to 304: the handler of the button "Update Status", for any values
  of \<open>selected_order_id\<close> and \<open>new_status\<close>. Where the page takes the two values
  from is \<open>update_status_page\<close> below. Both handlers of the page sit under the guard
  of line 279 and work on the frame \<open>orders\<close> loaded at line 241.
\<close>

definition update_status :: "int \<Rightarrow> string \<Rightarrow> workbook \<Rightarrow> outcome" where
  "update_status selected_order_id new_status wb =
     (let clients = load_data (clients_sheet wb);
          orders = load_data (orders_sheet wb)
      in if \<not> empty_df orders \<and> \<not> empty_df clients then
           on_frame
             (loc_assign (\<lambda>r. order_id r = selected_order_id) (\<lambda>r. r\<lparr>status := new_status\<rparr>)
                orders) wb (\<lambda>orders'.
           Done (save_orders orders' wb))
         else Done wb)"






text \<open>Lines 279 and 316 to 323: the handler of the button "Delete Selected Order".\<close>

definition delete_order :: "int \<Rightarrow> workbook \<Rightarrow> outcome" where
  "delete_order del_order_id wb =
     (let clients = load_data (clients_sheet wb);
          orders = load_data (orders_sheet wb)
      in if \<not> empty_df orders \<and> \<not> empty_df clients then
           on_frame (select (\<lambda>r. order_id r \<noteq> del_order_id) orders) wb (\<lambda>orders'.
           let wb1 = save_orders orders' wb;
               payments = load_data (payments_sheet wb1)
           in on_frame (select (\<lambda>r. payment_order_id r \<noteq> del_order_id) payments) wb1
                (\<lambda>payments'.
              Done (save_payments payments' wb1)))
         else Done wb)"

section \<open>Calendar page: the colour of a day\<close>

text \<open>A \<open>datetime.date\<close>: year, month and day, compared in this order.\<close>

type_synonym date = "int \<times> int \<times> int"

fun date_less :: "date \<Rightarrow> date \<Rightarrow> bool" where
  "date_less (y1, m1, d1) (y2, m2, d2) =
     (y1 < y2 \<or> (y1 = y2 \<and> (m1 < m2 \<or> (m1 = m2 \<and> d1 < d2))))"

text \<open>
  Lines 459 to 469, on the orders \<open>day_orders\<close> that are due on \<open>this_date\<close>. The result
  is the colour code the page draws.
\<close>

definition day_color :: "date \<Rightarrow> date \<Rightarrow> order_row list \<Rightarrow> string" where
  "day_color this_date today day_orders =
     (if day_orders \<noteq> [] then
        if list_all (\<lambda>r. status r = ''Completed'') day_orders then ''#4caf50''
        else if list_ex (\<lambda>r. status r \<in> set [''Scheduled Pickup'', ''Processing'']) day_orders
          then ''#ffeb3b''
        else if date_less this_date today \<and> list_ex (\<lambda>r. status r \<noteq> ''Completed'') day_orders
          then ''#f44336''
        else ''#90caf9''
      else ''#eceff1'')"

text \<open>
  Lines 441 and 456: the orders due on a date. \<open>to_date\<close> stands for
  \<open>pd.to_datetime(..., errors="coerce").dt.date\<close>, which gives no date for text that
  does not parse.
\<close>

definition day_orders_of :: "(string \<Rightarrow> date option) \<Rightarrow> order_row list \<Rightarrow> date \<Rightarrow> order_row list" where
  "day_orders_of to_date orders this_date =
     filter (\<lambda>r. to_date (due_date r) = Some this_date) orders"

section \<open>Dashboard page: the change of profit\<close>

text \<open>
  Lines 549 to 555, on the column \<open>Profit\<close> of \<open>profit_df\<close>, one entry per month, oldest
  first. The result is the pair of \<open>this_month_profit\<close> and \<open>profit_change\<close>.
  \<open>iloc[-1]\<close> and \<open>iloc[-2]\<close> are the last entry and the one before it; the guards on
  the length keep them in range.
\<close>

definition profit_metrics :: "real list \<Rightarrow> real \<times> real" where
  "profit_metrics profit =
     (if length profit \<ge> 2 then
        let this_month_profit = profit ! (length profit - 1);
            last_month_profit = profit ! (length profit - 2)
        in (this_month_profit,
            if last_month_profit \<noteq> 0
            then (this_month_profit - last_month_profit) / last_month_profit * 100
            else 0)
      else (if length profit = 1 then profit ! (length profit - 1) else 0, 0))"

definition profit_change :: "real list \<Rightarrow> real" where
  "profit_change profit = snd (profit_metrics profit)"

section \<open>The storage adapter on the cells of the file\<close>



text \<open>A cell of a sheet in the file, and a sheet: the header row and the rows below it.\<close>

datatype xcell = Blank | Str string | Number real

record sheet =
  header :: "string list"
  grid :: "xcell list list"




















section \<open>Sample data\<close>

text \<open>
  The scenario of the specification's test list: client Ama (id 1) has the orders 1 and 2,
  order 1 has the payments 1 and 2; client Kofi (id 2) has order 3 with payment 3.
\<close>

definition sample_client :: "int \<Rightarrow> string \<Rightarrow> client_row" where
  "sample_client cid name =
     \<lparr>client_id = cid, full_name = Text name, phone = ''677000000'', email = '''',
      address = ''Buea'', client_notes = ''''\<rparr>"

definition sample_order :: "int \<Rightarrow> int \<Rightarrow> string \<Rightarrow> order_row" where
  "sample_order oid cid st =
     \<lparr>order_id = oid, order_client_id = cid, service_type = ''WDF (Wash, Dry, Fold)'',
      weight_count = 10, pickup_date = ''2025-01-06'', due_date = ''2025-01-08'', status = st,
      special_instructions = '''', delivery_fee = 0, total_fee = 5000\<rparr>"

definition sample_payment :: "int \<Rightarrow> int \<Rightarrow> real \<Rightarrow> payment_row" where
  "sample_payment pid oid amt =
     \<lparr>payment_id = pid, payment_order_id = oid, amount_paid = amt,
      payment_date = ''2025-01-08'', payment_method = ''Cash'', payment_status = ''Partial'',
      payment_notes = ''''\<rparr>"

definition sample_workbook :: workbook where
  "sample_workbook =
     \<lparr>clients_sheet = Some (Frame [sample_client 1 ''Ama'', sample_client 2 ''Kofi'']),
      orders_sheet = Some (Frame [sample_order 1 1 ''Processing'', sample_order 2 1 ''Ready'',
                                  sample_order 3 2 ''Completed'']),
      payments_sheet = Some (Frame [sample_payment 1 1 2000, sample_payment 2 1 1000,
                                    sample_payment 3 3 5000]),
      costs_sheet = Some (Frame []),
      saved = []\<rparr>"

definition namesake_workbook :: workbook where
  "namesake_workbook =
     \<lparr>clients_sheet = Some (Frame [sample_client 1 ''Ama'', sample_client 2 ''Kofi'',
                                   sample_client 4 ''Ama'']),
      orders_sheet = Some (Frame [sample_order 1 1 ''Processing'', sample_order 2 4 ''Ready'']),
      payments_sheet = Some (Frame [sample_payment 1 1 2000, sample_payment 2 2 1000]),
      costs_sheet = Some (Frame []),
      saved = []\<rparr>"

definition blank_name_workbook :: workbook where
  "blank_name_workbook =
     \<lparr>clients_sheet = Some (Frame [(sample_client 1 '''')\<lparr>full_name := NaN\<rparr>]),
      orders_sheet = Some (Frame [sample_order 1 1 ''Processing'']),
      payments_sheet = Some (Frame [sample_payment 1 1 2000]),
      costs_sheet = Some (Frame []),
      saved = []\<rparr>"




lemmas sample_defs = sample_workbook_def sample_client_def sample_order_def sample_payment_def
  cell_eq_def

section \<open>Basic facts about frames and the storage adapter\<close>

lemma load_data_simps:
  "load_data None = NoColumns" "load_data (Some df) = df"
  by (simp_all add: load_data_def)

lemma not_empty_df: "\<not> empty_df df \<longleftrightarrow> (\<exists>rs. df = Frame rs \<and> rs \<noteq> [])"
  by (cases df) auto

lemma empty_df_rows: "empty_df df \<longleftrightarrow> rows df = []"
  by (cases df) simp_all

lemma find_filter: "find p xs = Some c \<Longrightarrow> \<exists>ys. filter p xs = c # ys"
  by (induction xs) (auto split: if_splits)

text \<open>The select boxes and \<open>options.index\<close>.\<close>

lemma selectbox_pick: "j < length xs \<Longrightarrow> selectbox xs k (Some j) = Some (xs ! j)"
  by (cases xs) simp_all






section \<open>Properties of the fee calculator\<close>

lemma rate_cases:
  "(startswith s ''WDF'' \<longrightarrow> rate s = 500)
   \<and> (startswith s ''WDI'' \<longrightarrow> rate s = 700)
   \<and> (startswith s ''Iron Only'' \<longrightarrow> rate s = 200)
   \<and> (startswith s ''Bedding'' \<longrightarrow> rate s = 1200)
   \<and> (\<not> startswith s ''WDF'' \<and> \<not> startswith s ''WDI'' \<and> \<not> startswith s ''Iron Only''
        \<and> \<not> startswith s ''Bedding'' \<longrightarrow> rate s = 500)"
  by (auto simp: rate_def rates_def startswith_def prefix_def)

text \<open>
  Claim C2. For every service \<open>s\<close>, weight \<open>w \<ge> 0\<close> and delivery fee \<open>d \<ge> 0\<close>,
  \<open>calculate_fee\<close> is \<open>rate s * w + d\<close>; an absent weight or delivery fee counts as 0.
  The rate is found by prefix: 500 for a service that starts with WDF, 700 for WDI, 200
  for Iron Only, 1200 for Bedding, and 500 when no prefix matches.
\<close>

theorem calculate_fee_rate_table:
  assumes "0 \<le> w" and "0 \<le> d"
  shows "calculate_fee s (Some w) (Some d) = real_of_int (rate s) * w + d
   \<and> calculate_fee s None (Some d) = d
   \<and> calculate_fee s (Some w) None = real_of_int (rate s) * w
   \<and> calculate_fee s None None = 0
   \<and> (startswith s ''WDF'' \<longrightarrow> rate s = 500)
   \<and> (startswith s ''WDI'' \<longrightarrow> rate s = 700)
   \<and> (startswith s ''Iron Only'' \<longrightarrow> rate s = 200)
   \<and> (startswith s ''Bedding'' \<longrightarrow> rate s = 1200)
   \<and> (\<not> startswith s ''WDF'' \<and> \<not> startswith s ''WDI'' \<and> \<not> startswith s ''Iron Only''
        \<and> \<not> startswith s ''Bedding'' \<longrightarrow> rate s = 500)"
proof -
  have fee: "calculate_fee s (Some w) (Some d) = real_of_int (rate s) * w + d
   \<and> calculate_fee s None (Some d) = d
   \<and> calculate_fee s (Some w) None = real_of_int (rate s) * w
   \<and> calculate_fee s None None = 0"
    by (simp add: calculate_fee_def)
  with rate_cases[of s] show ?thesis by simp
qed

theorem calculate_fee_rate_table_witness:
  "(0::real) \<le> 10 \<and> (0::real) \<le> 0
   \<and> startswith ''WDF (Wash, Dry, Fold)'' ''WDF''
   \<and> rate ''WDF (Wash, Dry, Fold)'' = 500
   \<and> calculate_fee ''WDF (Wash, Dry, Fold)'' (Some 10) (Some 0) = 5000"
proof -
  have s: "startswith ''WDF (Wash, Dry, Fold)'' ''WDF''" by (simp add: startswith_def)
  have w: "(0::real) \<le> 10" and d: "(0::real) \<le> 0" by simp_all
  from calculate_fee_rate_table[OF w d, of "''WDF (Wash, Dry, Fold)''"] s
  have r: "rate ''WDF (Wash, Dry, Fold)'' = 500"
    and f: "calculate_fee ''WDF (Wash, Dry, Fold)'' (Some 10) (Some 0)
         = real_of_int (rate ''WDF (Wash, Dry, Fold)'') * 10 + 0"
    by blast+
  from f have "calculate_fee ''WDF (Wash, Dry, Fold)'' (Some 10) (Some 0) = 5000"
    unfolding r by simp
  with s r show ?thesis by simp
qed

section \<open>Properties of the identifier generation\<close>

lemma py_int_of_int: "py_int (of_int z) = z"
  by (simp add: py_int_def)

lemma py_int_close: "\<bar>x - real_of_int (py_int x)\<bar> < 1 \<and> \<bar>real_of_int (py_int x)\<bar> \<le> \<bar>x\<bar>"
  unfolding py_int_def by (auto; linarith)

lemma next_id_empty: "empty_df df \<Longrightarrow> next_id df col = 1"
  by (simp add: next_id_def)

lemma next_id_nonempty: "\<not> empty_df df \<Longrightarrow> next_id df col = py_int (Max (col ` set (rows df))) + 1"
  by (simp add: next_id_def)

lemma Max_of_int: "finite A \<Longrightarrow> A \<noteq> {} \<Longrightarrow> Max (real_of_int ` A) = real_of_int (Max A)"
  by (rule mono_Max_commute[symmetric]) (auto simp: mono_def)

lemma next_id_integers:
  assumes "\<not> empty_df df" "\<forall>r\<in>set (rows df). col r = real_of_int (ident r)"
  shows "next_id df col = Max (ident ` set (rows df)) + 1"
proof -
  have ne: "set (rows df) \<noteq> {}" using assms(1) by (cases df) auto
  have "col ` set (rows df) = real_of_int ` (ident ` set (rows df))"
    using assms(2) by (auto simp: image_iff)
  then have "Max (col ` set (rows df)) = real_of_int (Max (ident ` set (rows df)))"
    using ne by (simp add: Max_of_int)
  then show ?thesis using assms(1) by (simp add: next_id_nonempty py_int_of_int)
qed

text \<open>
  Claim C3. \<open>next_id\<close> is 1 on an empty table and otherwise the maximum of the id column
  plus 1, the maximum coerced to an integer by \<open>int\<close>: on a column of integers the
  result is exactly the maximum plus 1 (the ids 1, 3, 5 give 6), and the coercion leaves
  an integer as it is and moves any other number by less than 1 (a maximum of 2.5 gives 3).
\<close>

theorem next_id_spec:
  "(empty_df df \<longrightarrow> next_id df id_col = 1)
   \<and> (\<not> empty_df df \<longrightarrow> next_id df id_col = py_int (Max (id_col ` set (rows df))) + 1)
   \<and> (\<not> empty_df df \<and> (\<forall>r \<in> set (rows df). id_col r = real_of_int (ident r))
        \<longrightarrow> next_id df id_col = Max (ident ` set (rows df)) + 1)
   \<and> py_int (real_of_int z) = z
   \<and> \<bar>x - real_of_int (py_int x)\<bar> < 1"
  using next_id_empty[of df id_col] next_id_nonempty[of df id_col] next_id_integers[of df id_col ident]
    py_int_of_int[of z] py_int_close[of x]
  by blast

theorem next_id_spec_witness:
  "next_id (Frame [sample_client 1 ''Ama'', sample_client 3 ''Kofi'', sample_client 5 ''Esi''])
     (\<lambda>r. real_of_int (client_id r)) = 6
   \<and> next_id (Frame ([] :: client_row list)) (\<lambda>r. real_of_int (client_id r)) = 1
   \<and> next_id (NoColumns :: client_row frame) (\<lambda>r. real_of_int (client_id r)) = 1
   \<and> next_id (Frame [sample_payment 2 1 (5 / 2)]) amount_paid = 3"
proof -
  let ?df = "Frame [sample_client 1 ''Ama'', sample_client 3 ''Kofi'', sample_client 5 ''Esi'']"
  let ?col = "\<lambda>r. real_of_int (client_id r)"
  have ne: "\<not> empty_df ?df" by simp
  have ints: "\<forall>r \<in> set (rows ?df). ?col r = real_of_int (client_id r)" by simp
  have m: "Max (client_id ` set (rows ?df)) = 5" by (simp add: sample_client_def)
  from next_id_spec[of ?df ?col client_id] ne ints
  have "next_id ?df ?col = Max (client_id ` set (rows ?df)) + 1" by blast
  then have a: "next_id ?df ?col = 6" unfolding m by simp
  have e1: "empty_df (Frame ([] :: client_row list))" by simp
  from next_id_spec[of "Frame ([] :: client_row list)" ?col] e1
  have b: "next_id (Frame ([] :: client_row list)) ?col = 1" by blast
  have e2: "empty_df (NoColumns :: client_row frame)" by simp
  from next_id_spec[of "NoColumns :: client_row frame" ?col] e2
  have c: "next_id (NoColumns :: client_row frame) ?col = 1" by blast
  let ?pf = "Frame [sample_payment 2 1 (5 / 2)]"
  have ne': "\<not> empty_df ?pf" by simp
  from next_id_spec[of ?pf amount_paid] ne'
  have "next_id ?pf amount_paid = py_int (Max (amount_paid ` set (rows ?pf))) + 1" by blast
  then have d: "next_id ?pf amount_paid = 3"
    by (simp add: sample_payment_def py_int_def)
  from a b c d show ?thesis by (intro conjI)
qed

section \<open>Deleting a client\<close>

text \<open>
  When the select box holds the name of a client row, the handler ends without an
  exception, and the three guards on emptiness select one of three sequences of writes.
\<close>

lemma delete_client_result:
  assumes "find (\<lambda>r. cell_eq (full_name r) n) (rows (load_data (clients_sheet wb))) = Some c"
  shows "delete_client n wb =
     (let cs = rows (load_data (clients_sheet wb));
          wb1 = save_clients (Frame (filter (\<lambda>r. client_id r \<noteq> client_id c) cs)) wb;
          orders = load_data (orders_sheet wb);
          payments = load_data (payments_sheet wb)
      in if empty_df orders then Done wb1
         else let mine = filter (\<lambda>r. order_client_id r = client_id c) (rows orders);
                  wb2 = save_orders (Frame (filter (\<lambda>r. order_client_id r \<noteq> client_id c) (rows orders))) wb1
              in if empty_df payments \<or> mine = [] then Done wb2
                 else Done (save_payments
                    (Frame (filter (\<lambda>r. payment_order_id r \<notin> set (map order_id mine)) (rows payments))) wb2))"
proof -
  obtain cs where cs: "load_data (clients_sheet wb) = Frame cs" "cs \<noteq> []"
  proof (cases "load_data (clients_sheet wb)")
    case NoColumns
    then show ?thesis using assms by simp
  next
    case (Frame cs)
    moreover have "cs \<noteq> []" using assms Frame by auto
    ultimately show ?thesis using that by blast
  qed
  obtain ys where ys: "filter (\<lambda>r. cell_eq (full_name r) n) cs = c # ys"
    using assms cs find_filter by fastforce
  show ?thesis
  proof (cases "load_data (orders_sheet wb)")
    case NoColumns
    then show ?thesis
      by (simp add: delete_client_def cs ys save_clients_def Let_def)
  next
    case (Frame os)
    note os = this
    show ?thesis
    proof (cases "load_data (payments_sheet wb)")
      case NoColumns
      then show ?thesis
        by (simp add: delete_client_def cs ys os save_clients_def Let_def)
    next
      case (Frame ps)
      then show ?thesis
        by (simp add: delete_client_def cs ys os save_clients_def Let_def)
    qed
  qed
qed

lemma delete_client_sheets:
  assumes "find (\<lambda>r. cell_eq (full_name r) n) (rows (load_data (clients_sheet wb))) = Some c"
  defines "mine \<equiv> filter (\<lambda>x. order_client_id x = client_id c) (rows (load_data (orders_sheet wb)))"
  shows "\<exists>wb'. delete_client n wb = Done wb'
     \<and> rows (load_data (clients_sheet wb')) =
         filter (\<lambda>r. client_id r \<noteq> client_id c) (rows (load_data (clients_sheet wb)))
     \<and> rows (load_data (orders_sheet wb')) =
         filter (\<lambda>r. order_client_id r \<noteq> client_id c) (rows (load_data (orders_sheet wb)))
     \<and> rows (load_data (payments_sheet wb')) =
         (if empty_df (load_data (orders_sheet wb)) \<or> empty_df (load_data (payments_sheet wb)) \<or> mine = []
          then rows (load_data (payments_sheet wb))
          else filter (\<lambda>r. payment_order_id r \<notin> set (map order_id mine))
                 (rows (load_data (payments_sheet wb))))
     \<and> costs_sheet wb' = costs_sheet wb"
proof (cases "empty_df (load_data (orders_sheet wb))")
  case True
  then have "rows (load_data (orders_sheet wb)) = []"
    by (cases "load_data (orders_sheet wb)") simp_all
  then show ?thesis
    unfolding delete_client_result[OF assms(1)] using True
    by (simp add: Let_def save_clients_def load_data_simps)
next
  case False
  show ?thesis
  proof (cases "empty_df (load_data (payments_sheet wb)) \<or> mine = []")
    case True
    then show ?thesis
      unfolding delete_client_result[OF assms(1)] mine_def using False
      by (simp add: Let_def save_clients_def save_orders_def load_data_simps
            del: filter_empty_conv set_map set_filter)
  next
    case filled: False
    then show ?thesis
      unfolding delete_client_result[OF assms(1)] mine_def using False
      by (simp add: Let_def save_clients_def save_orders_def save_payments_def load_data_simps
            del: filter_empty_conv set_map set_filter)
  qed
qed

lemma delete_client_named:
  assumes "find (\<lambda>r. cell_eq (full_name r) n) (rows (load_data (clients_sheet wb))) = Some c"
  shows "\<exists>wb'. delete_client n wb = Done wb'
     \<and> rows (load_data (clients_sheet wb')) =
         filter (\<lambda>r. client_id r \<noteq> client_id c) (rows (load_data (clients_sheet wb)))
     \<and> rows (load_data (orders_sheet wb')) =
         filter (\<lambda>r. order_client_id r \<noteq> client_id c) (rows (load_data (orders_sheet wb)))
     \<and> rows (load_data (payments_sheet wb')) =
         filter (\<lambda>r. payment_order_id r \<notin>
                   set (map order_id (filter (\<lambda>x. order_client_id x = client_id c)
                                        (rows (load_data (orders_sheet wb))))))
           (rows (load_data (payments_sheet wb)))
     \<and> costs_sheet wb' = costs_sheet wb"
proof -
  let ?mine = "filter (\<lambda>x. order_client_id x = client_id c) (rows (load_data (orders_sheet wb)))"
  let ?ps = "rows (load_data (payments_sheet wb))"
  have same: "?ps = filter (\<lambda>r. payment_order_id r \<notin> set (map order_id ?mine)) ?ps"
    if "empty_df (load_data (orders_sheet wb)) \<or> empty_df (load_data (payments_sheet wb)) \<or> ?mine = []"
  proof -
    from that consider "?mine = []" | "?ps = []"
      unfolding empty_df_rows by fastforce
    then show ?thesis
    proof cases
      case 1
      show ?thesis unfolding 1 by simp
    next
      case 2
      show ?thesis unfolding 2 by simp
    qed
  qed
  from delete_client_sheets[OF assms] obtain wb' where
    d: "delete_client n wb = Done wb'"
    and c: "rows (load_data (clients_sheet wb')) =
         filter (\<lambda>r. client_id r \<noteq> client_id c) (rows (load_data (clients_sheet wb)))"
    and o: "rows (load_data (orders_sheet wb')) =
         filter (\<lambda>r. order_client_id r \<noteq> client_id c) (rows (load_data (orders_sheet wb)))"
    and p: "rows (load_data (payments_sheet wb')) =
         (if empty_df (load_data (orders_sheet wb)) \<or> empty_df (load_data (payments_sheet wb)) \<or> ?mine = []
          then ?ps
          else filter (\<lambda>r. payment_order_id r \<notin> set (map order_id ?mine)) ?ps)"
    and k: "costs_sheet wb' = costs_sheet wb"
    by blast
  have p': "rows (load_data (payments_sheet wb')) =
      filter (\<lambda>r. payment_order_id r \<notin> set (map order_id ?mine)) ?ps"
  proof (cases "empty_df (load_data (orders_sheet wb)) \<or> empty_df (load_data (payments_sheet wb)) \<or> ?mine = []")
    case True
    from p have "rows (load_data (payments_sheet wb')) = ?ps" by (simp only: True if_True)
    with same[OF True] show ?thesis by simp
  next
    case False
    from p show ?thesis by (simp only: False if_False)
  qed
  from d c o p' k show ?thesis by blast
qed

lemma delete_client_page_pick:
  assumes "i < length (rows (load_data (clients_sheet wb)))"
  shows "delete_client_page (Some i) wb
           = delete_client (full_name (rows (load_data (clients_sheet wb)) ! i)) wb"
proof -
  let ?cs = "rows (load_data (clients_sheet wb))"
  have ne: "\<not> empty_df (load_data (clients_sheet wb))"
    using assms by (cases "load_data (clients_sheet wb)") auto
  have "selectbox (map full_name ?cs) 0 (Some i) = Some (map full_name ?cs ! i)"
    by (rule selectbox_pick) (simp add: assms)
  then have "selectbox (map full_name ?cs) 0 (Some i) = Some (full_name (?cs ! i))"
    using assms by simp
  then show ?thesis
    using ne by (simp add: delete_client_page_def Let_def)
qed

text \<open>
  Claim C1, as stated: in every state, deleting client C removes the row of C and what
  hangs on it, and nothing else. The select box hands over a name, and line 180 takes the
  first row with that name. With the clients Ama (1), Kofi (2) and Ama (4), picking the
  second Ama removes client 1, its order and its payment, and leaves the row, the order
  and the payment of client 4. And a client whose name is missing cannot be deleted at
  all: no row equals \<open>NaN\<close>, line 180 raises IndexError and nothing is written.
\<close>

theorem delete_client_page_namesake_counterexample:
  "rows (load_data (clients_sheet namesake_workbook)) ! 2 = sample_client 4 ''Ama''
   \<and> rows (load_data (clients_sheet (final (delete_client_page (Some 2) namesake_workbook))))
       = [sample_client 2 ''Kofi'', sample_client 4 ''Ama'']
   \<and> rows (load_data (orders_sheet (final (delete_client_page (Some 2) namesake_workbook))))
       = [sample_order 2 4 ''Ready'']
   \<and> rows (load_data (payments_sheet (final (delete_client_page (Some 2) namesake_workbook))))
       = [sample_payment 2 2 1000]
   \<and> delete_client_page (Some 0) blank_name_workbook = Raised IndexError blank_name_workbook"
  by (simp add: delete_client_page_def delete_client_def namesake_workbook_def
        blank_name_workbook_def sample_client_def sample_order_def sample_payment_def cell_eq_def
        load_data_def save_clients_def save_orders_def save_payments_def Let_def)

text \<open>
  Claim C1, amended. When the client row C picked in the select box is the first row that
  carries its name (so the name is not missing), deleting C ends without an exception and
  removes the client rows with the id of C, the order rows whose \<open>client_id\<close> is that
  id, and the payment rows whose \<open>order_id\<close> is the id of one of the removed orders.
  All other rows stay, in their order, and the costs sheet is as before. This holds in
  every state of the orders, payments and costs sheets, missing, empty or filled.
\<close>

theorem delete_client_page_cascade:
  assumes "i < length (rows (load_data (clients_sheet wb)))"
    and "rows (load_data (clients_sheet wb)) ! i = c"
    and "find (\<lambda>r. cell_eq (full_name r) (full_name c)) (rows (load_data (clients_sheet wb)))
           = Some c"
  shows "\<exists>wb'. delete_client_page (Some i) wb = Done wb'
     \<and> rows (load_data (clients_sheet wb')) =
         filter (\<lambda>r. client_id r \<noteq> client_id c) (rows (load_data (clients_sheet wb)))
     \<and> rows (load_data (orders_sheet wb')) =
         filter (\<lambda>r. order_client_id r \<noteq> client_id c) (rows (load_data (orders_sheet wb)))
     \<and> rows (load_data (payments_sheet wb')) =
         filter (\<lambda>r. payment_order_id r \<notin>
                   set (map order_id (filter (\<lambda>x. order_client_id x = client_id c)
                                        (rows (load_data (orders_sheet wb))))))
           (rows (load_data (payments_sheet wb)))
     \<and> costs_sheet wb' = costs_sheet wb"
proof -
  have "delete_client_page (Some i) wb = delete_client (full_name c) wb"
    using delete_client_page_pick[OF assms(1)] assms(2) by simp
  then show ?thesis
    using delete_client_named[OF assms(3)] by simp
qed

theorem delete_client_page_cascade_witness:
  "(0::nat) < length (rows (load_data (clients_sheet sample_workbook)))
   \<and> rows (load_data (clients_sheet sample_workbook)) ! 0 = sample_client 1 ''Ama''
   \<and> find (\<lambda>r. cell_eq (full_name r) (full_name (sample_client 1 ''Ama'')))
        (rows (load_data (clients_sheet sample_workbook))) = Some (sample_client 1 ''Ama'')
   \<and> (\<exists>wb'. delete_client_page (Some 0) sample_workbook = Done wb'
        \<and> map client_id (rows (load_data (clients_sheet wb'))) = [2]
        \<and> map order_id (rows (load_data (orders_sheet wb'))) = [3]
        \<and> map payment_id (rows (load_data (payments_sheet wb'))) = [3]
        \<and> costs_sheet wb' = Some (Frame []))"
proof -
  have h1: "(0::nat) < length (rows (load_data (clients_sheet sample_workbook)))"
    by (simp add: sample_workbook_def load_data_def)
  have h2: "rows (load_data (clients_sheet sample_workbook)) ! 0 = sample_client 1 ''Ama''"
    by (simp add: sample_workbook_def load_data_def)
  have h3: "find (\<lambda>r. cell_eq (full_name r) (full_name (sample_client 1 ''Ama'')))
        (rows (load_data (clients_sheet sample_workbook))) = Some (sample_client 1 ''Ama'')"
    by (simp add: sample_defs load_data_def)
  from delete_client_page_cascade[OF h1 h2 h3] obtain wb' where
    a: "delete_client_page (Some 0) sample_workbook = Done wb'
     \<and> rows (load_data (clients_sheet wb')) =
         filter (\<lambda>r. client_id r \<noteq> client_id (sample_client 1 ''Ama''))
           (rows (load_data (clients_sheet sample_workbook)))
     \<and> rows (load_data (orders_sheet wb')) =
         filter (\<lambda>r. order_client_id r \<noteq> client_id (sample_client 1 ''Ama''))
           (rows (load_data (orders_sheet sample_workbook)))
     \<and> rows (load_data (payments_sheet wb')) =
         filter (\<lambda>r. payment_order_id r \<notin>
                   set (map order_id (filter (\<lambda>x. order_client_id x = client_id (sample_client 1 ''Ama''))
                                        (rows (load_data (orders_sheet sample_workbook))))))
           (rows (load_data (payments_sheet sample_workbook)))
     \<and> costs_sheet wb' = costs_sheet sample_workbook" ..
  note d = a[THEN conjunct1]
  note c0 = a[THEN conjunct2, THEN conjunct1]
  note o0 = a[THEN conjunct2, THEN conjunct2, THEN conjunct1]
  note p0 = a[THEN conjunct2, THEN conjunct2, THEN conjunct2, THEN conjunct1]
  note k0 = a[THEN conjunct2, THEN conjunct2, THEN conjunct2, THEN conjunct2]
  have c: "map client_id (rows (load_data (clients_sheet wb'))) = [2]"
    unfolding c0 by (simp add: sample_defs load_data_def)
  have o: "map order_id (rows (load_data (orders_sheet wb'))) = [3]"
    unfolding o0 by (simp add: sample_defs load_data_def)
  have p: "map payment_id (rows (load_data (payments_sheet wb'))) = [3]"
    unfolding p0 by (simp add: sample_defs load_data_def)
  have k: "costs_sheet wb' = Some (Frame [])"
    unfolding k0 by (simp add: sample_defs)
  from d c o p k have "\<exists>wb'. delete_client_page (Some 0) sample_workbook = Done wb'
        \<and> map client_id (rows (load_data (clients_sheet wb'))) = [2]
        \<and> map order_id (rows (load_data (orders_sheet wb'))) = [3]
        \<and> map payment_id (rows (load_data (payments_sheet wb'))) = [3]
        \<and> costs_sheet wb' = Some (Frame [])"
    by (intro exI[of _ wb'] conjI)
  with h1 h2 h3 show ?thesis by (intro conjI)
qed

text \<open>
  Claim C10. When a client is deleted while the orders sheet is empty (or cannot be read),
  \<open>save_data\<close> is called for the clients sheet only. The orders, payments and costs
  sheets are not written: every payment row, with or without an existing order, is
  still there afterwards.
\<close>

theorem delete_client_without_orders:
  assumes "find (\<lambda>r. cell_eq (full_name r) n) (rows (load_data (clients_sheet wb))) = Some c"
    and "empty_df (load_data (orders_sheet wb))"
  shows "delete_client n wb =
           Done (save_clients (Frame (filter (\<lambda>r. client_id r \<noteq> client_id c)
                   (rows (load_data (clients_sheet wb))))) wb)
     \<and> saved (final (delete_client n wb)) = saved wb @ [''clients'']
     \<and> orders_sheet (final (delete_client n wb)) = orders_sheet wb
     \<and> payments_sheet (final (delete_client n wb)) = payments_sheet wb
     \<and> costs_sheet (final (delete_client n wb)) = costs_sheet wb"
  unfolding delete_client_result[OF assms(1)] using assms(2)
  by (simp add: Let_def save_clients_def)

theorem delete_client_without_orders_witness:
  "find (\<lambda>r. cell_eq (full_name r) (Text ''Ama''))
      (rows (load_data (clients_sheet (sample_workbook\<lparr>orders_sheet := Some (Frame [])\<rparr>))))
     = Some (sample_client 1 ''Ama'')
   \<and> empty_df (load_data (orders_sheet (sample_workbook\<lparr>orders_sheet := Some (Frame [])\<rparr>)))
   \<and> saved (final (delete_client (Text ''Ama'') (sample_workbook\<lparr>orders_sheet := Some (Frame [])\<rparr>)))
       = [''clients'']
   \<and> map payment_id (rows (load_data (payments_sheet
         (final (delete_client (Text ''Ama'') (sample_workbook\<lparr>orders_sheet := Some (Frame [])\<rparr>))))))
       = [1, 2, 3]
   \<and> map client_id (rows (load_data (clients_sheet
         (final (delete_client (Text ''Ama'') (sample_workbook\<lparr>orders_sheet := Some (Frame [])\<rparr>))))))
       = [2]"
proof -
  let ?wb = "sample_workbook\<lparr>orders_sheet := Some (Frame [])\<rparr>"
  have h: "find (\<lambda>r. cell_eq (full_name r) (Text ''Ama'')) (rows (load_data (clients_sheet ?wb)))
     = Some (sample_client 1 ''Ama'')"
    by (simp add: sample_defs load_data_def)
  have e: "empty_df (load_data (orders_sheet ?wb))"
    by (simp add: load_data_def)
  note t = delete_client_without_orders[OF h e]
  note r = t[THEN conjunct1]
  note s0 = t[THEN conjunct2, THEN conjunct1]
  note p0 = t[THEN conjunct2, THEN conjunct2, THEN conjunct2, THEN conjunct1]
  have s: "saved (final (delete_client (Text ''Ama'') ?wb)) = [''clients'']"
    unfolding s0 by (simp add: sample_workbook_def)
  have p: "map payment_id (rows (load_data (payments_sheet (final (delete_client (Text ''Ama'') ?wb)))))
       = [1, 2, 3]"
    unfolding p0 by (simp add: sample_defs load_data_def)
  have c: "map client_id (rows (load_data (clients_sheet (final (delete_client (Text ''Ama'') ?wb)))))
       = [2]"
    unfolding r by (simp add: save_clients_def sample_defs load_data_def)
  from h e s p c show ?thesis by (intro conjI)
qed

section \<open>Deleting an order\<close>

lemma delete_order_result:
  assumes "\<not> empty_df (load_data (orders_sheet wb))" "\<not> empty_df (load_data (clients_sheet wb))"
  shows "delete_order d wb =
     (let wb1 = save_orders (Frame (filter (\<lambda>r. order_id r \<noteq> d) (rows (load_data (orders_sheet wb))))) wb
      in case load_data (payments_sheet wb) of
           NoColumns \<Rightarrow> Raised KeyError wb1
         | Frame ps \<Rightarrow> Done (save_payments (Frame (filter (\<lambda>r. payment_order_id r \<noteq> d) ps)) wb1))"
proof -
  obtain os where os: "load_data (orders_sheet wb) = Frame os" "os \<noteq> []"
    using assms(1) not_empty_df by blast
  show ?thesis using assms(2)
    by (cases "load_data (payments_sheet wb)")
       (simp_all add: delete_order_def os Let_def save_orders_def)
qed

text \<open>
  Claim C4. When the Orders page shows the handler (orders and clients are not empty),
  deleting the order \<open>d\<close> removes the order rows with this id and the payment rows whose
  \<open>order_id\<close> is \<open>d\<close>. The other orders, of the same client or not, the payments of
  other orders, the clients and the costs stay. The handler ends without an exception
  whenever the payments sheet reads with its columns.
\<close>

theorem delete_order_cascade:
  assumes "\<not> empty_df (load_data (orders_sheet wb))"
    and "\<not> empty_df (load_data (clients_sheet wb))"
  shows "rows (load_data (orders_sheet (final (delete_order d wb)))) =
           filter (\<lambda>r. order_id r \<noteq> d) (rows (load_data (orders_sheet wb)))
     \<and> rows (load_data (payments_sheet (final (delete_order d wb)))) =
           filter (\<lambda>r. payment_order_id r \<noteq> d) (rows (load_data (payments_sheet wb)))
     \<and> clients_sheet (final (delete_order d wb)) = clients_sheet wb
     \<and> costs_sheet (final (delete_order d wb)) = costs_sheet wb
     \<and> (load_data (payments_sheet wb) \<noteq> NoColumns \<longrightarrow>
          (\<exists>wb'. delete_order d wb = Done wb'))"
  unfolding delete_order_result[OF assms]
  by (cases "load_data (payments_sheet wb)")
     (simp_all add: Let_def save_orders_def save_payments_def load_data_simps)

theorem delete_order_cascade_witness:
  "\<not> empty_df (load_data (orders_sheet sample_workbook))
   \<and> \<not> empty_df (load_data (clients_sheet sample_workbook))
   \<and> map order_id (rows (load_data (orders_sheet (final (delete_order 1 sample_workbook))))) = [2, 3]
   \<and> map payment_id (rows (load_data (payments_sheet (final (delete_order 1 sample_workbook))))) = [3]
   \<and> (\<exists>wb'. delete_order 1 sample_workbook = Done wb')"
proof -
  have g1: "\<not> empty_df (load_data (orders_sheet sample_workbook))"
    by (simp add: sample_workbook_def load_data_def)
  have g2: "\<not> empty_df (load_data (clients_sheet sample_workbook))"
    by (simp add: sample_workbook_def load_data_def)
  have g3: "load_data (payments_sheet sample_workbook) \<noteq> NoColumns"
    by (simp add: sample_workbook_def load_data_def)
  note t = delete_order_cascade[OF g1 g2, of 1]
  note o0 = t[THEN conjunct1]
  note p0 = t[THEN conjunct2, THEN conjunct1]
  note e0 = t[THEN conjunct2, THEN conjunct2, THEN conjunct2, THEN conjunct2, THEN mp, OF g3]
  have o: "map order_id (rows (load_data (orders_sheet (final (delete_order 1 sample_workbook))))) = [2, 3]"
    unfolding o0 by (simp add: sample_defs load_data_def)
  have p: "map payment_id (rows (load_data (payments_sheet (final (delete_order 1 sample_workbook))))) = [3]"
    unfolding p0 by (simp add: sample_defs load_data_def)
  from g1 g2 o p e0 show ?thesis by (intro conjI)
qed

section \<open>Updating the status of an order\<close>

lemma update_status_result:
  assumes "load_data (orders_sheet wb) = Frame os" "os \<noteq> []"
    "\<not> empty_df (load_data (clients_sheet wb))"
  shows "update_status sel new wb =
     Done (save_orders (Frame (map (\<lambda>r. if order_id r = sel then r\<lparr>status := new\<rparr> else r) os)) wb)"
  using assms by (simp add: update_status_def Let_def)

lemma update_status_unreachable:
  assumes "empty_df (load_data (orders_sheet wb)) \<or> empty_df (load_data (clients_sheet wb))"
  shows "update_status sel new wb = Done wb"
  using assms by (auto simp add: update_status_def Let_def)

lemma loc_assign_status_rows: "\<forall>i < length os.
          let r = os ! i;
              r' = map (\<lambda>r. if order_id r = sel then r\<lparr>status := new\<rparr> else r) os ! i
          in r' = r\<lparr>status := status r'\<rparr>
           \<and> total_fee r' = total_fee r
           \<and> (order_id r \<noteq> sel \<longrightarrow> r' = r)
           \<and> (order_id r = sel \<and> c \<longrightarrow> status r' = new)"
  by (simp add: Let_def)

lemma unchanged_rows:
  fixes rs :: "order_row list"
  assumes e: "rs = [] \<or> c"
  shows "\<forall>i < length rs.
          let r = rs ! i; r' = rs ! i
          in r' = r\<lparr>status := status r'\<rparr>
           \<and> total_fee r' = total_fee r
           \<and> (order_id r \<noteq> sel \<longrightarrow> r' = r)
           \<and> (order_id r = sel \<and> \<not> c \<longrightarrow> status r' = new)"
proof (cases "rs = []")
  case True
  then show ?thesis by simp
next
  case False
  then have c using e by simp
  then show ?thesis by (simp add: Let_def)
qed

text \<open>
  Claim C6. The update of a status ends without an exception and changes nothing but the
  field \<open>status\<close> of the order rows with the selected id: the orders sheet keeps its
  length, every row keeps all its other fields (\<open>total_fee\<close> among them), the rows with
  another id are the same rows, and the clients, payments and costs sheets are as before.
  When the page shows the handler, the rows with the selected id carry the new status.
\<close>

theorem update_status_frame:
  "\<exists>wb'. update_status sel new wb = Done wb'
     \<and> clients_sheet wb' = clients_sheet wb
     \<and> payments_sheet wb' = payments_sheet wb
     \<and> costs_sheet wb' = costs_sheet wb
     \<and> length (rows (load_data (orders_sheet wb'))) = length (rows (load_data (orders_sheet wb)))
     \<and> (\<forall>i < length (rows (load_data (orders_sheet wb))).
          let r = rows (load_data (orders_sheet wb)) ! i;
              r' = rows (load_data (orders_sheet wb')) ! i
          in r' = r\<lparr>status := status r'\<rparr>
           \<and> total_fee r' = total_fee r
           \<and> (order_id r \<noteq> sel \<longrightarrow> r' = r)
           \<and> (order_id r = sel \<and> \<not> empty_df (load_data (clients_sheet wb)) \<longrightarrow> status r' = new))"
proof (cases "empty_df (load_data (orders_sheet wb)) \<or> empty_df (load_data (clients_sheet wb))")
  case True
  have e: "rows (load_data (orders_sheet wb)) = [] \<or> empty_df (load_data (clients_sheet wb))"
    using True by (cases "load_data (orders_sheet wb)") auto
  have "update_status sel new wb = Done wb" by (rule update_status_unreachable[OF True])
  with unchanged_rows[OF e] show ?thesis by blast
next
  case False
  then obtain os where os: "load_data (orders_sheet wb) = Frame os" "os \<noteq> []"
    using not_empty_df by blast
  have c: "\<not> empty_df (load_data (clients_sheet wb))" using False by simp
  let ?os' = "map (\<lambda>r. if order_id r = sel then r\<lparr>status := new\<rparr> else r) os"
  let ?wb' = "save_orders (Frame ?os') wb"
  have l: "rows (load_data (orders_sheet ?wb')) = ?os'"
    by (simp add: save_orders_def load_data_simps)
  have r: "rows (load_data (orders_sheet wb)) = os" by (simp add: os)
  have 1: "update_status sel new wb = Done ?wb'" by (rule update_status_result[OF os c])
  have 2: "clients_sheet ?wb' = clients_sheet wb" "payments_sheet ?wb' = payments_sheet wb"
     "costs_sheet ?wb' = costs_sheet wb" by (simp_all add: save_orders_def)
  have 3: "length (rows (load_data (orders_sheet ?wb'))) = length (rows (load_data (orders_sheet wb)))"
    unfolding l r by simp
  have 4: "\<forall>i < length (rows (load_data (orders_sheet wb))).
          let r = rows (load_data (orders_sheet wb)) ! i;
              r' = rows (load_data (orders_sheet ?wb')) ! i
          in r' = r\<lparr>status := status r'\<rparr>
           \<and> total_fee r' = total_fee r
           \<and> (order_id r \<noteq> sel \<longrightarrow> r' = r)
           \<and> (order_id r = sel \<and> \<not> empty_df (load_data (clients_sheet wb)) \<longrightarrow> status r' = new)"
    unfolding l r by (rule loc_assign_status_rows)
  from 1 2 3 4 show ?thesis by blast
qed

theorem update_status_frame_witness:
  "\<exists>wb'. update_status 2 ''Completed'' sample_workbook = Done wb'
     \<and> clients_sheet wb' = clients_sheet sample_workbook
     \<and> payments_sheet wb' = payments_sheet sample_workbook
     \<and> rows (load_data (orders_sheet wb')) ! 0 = sample_order 1 1 ''Processing''
     \<and> status (rows (load_data (orders_sheet wb')) ! 1) = ''Completed''
     \<and> total_fee (rows (load_data (orders_sheet wb')) ! 1) = 5000"
proof -
  let ?before = "rows (load_data (orders_sheet sample_workbook))"
  have b: "?before = [sample_order 1 1 ''Processing'', sample_order 2 1 ''Ready'',
                      sample_order 3 2 ''Completed'']"
    by (simp add: sample_workbook_def load_data_def)
  have g: "\<not> empty_df (load_data (clients_sheet sample_workbook))"
    by (simp add: sample_workbook_def load_data_def)
  from update_status_frame[of 2 "''Completed''" sample_workbook] obtain wb' where
    a: "update_status 2 ''Completed'' sample_workbook = Done wb'
     \<and> clients_sheet wb' = clients_sheet sample_workbook
     \<and> payments_sheet wb' = payments_sheet sample_workbook
     \<and> costs_sheet wb' = costs_sheet sample_workbook
     \<and> length (rows (load_data (orders_sheet wb'))) = length ?before
     \<and> (\<forall>i < length ?before.
          let r = ?before ! i;
              r' = rows (load_data (orders_sheet wb')) ! i
          in r' = r\<lparr>status := status r'\<rparr>
           \<and> total_fee r' = total_fee r
           \<and> (order_id r \<noteq> 2 \<longrightarrow> r' = r)
           \<and> (order_id r = 2 \<and> \<not> empty_df (load_data (clients_sheet sample_workbook))
                \<longrightarrow> status r' = ''Completed''))" ..
  note d = a[THEN conjunct1]
  note c = a[THEN conjunct2, THEN conjunct1]
  note p = a[THEN conjunct2, THEN conjunct2, THEN conjunct1]
  note f = a[THEN conjunct2, THEN conjunct2, THEN conjunct2, THEN conjunct2, THEN conjunct2]
  have i0: "(0::nat) < length ?before" and i1: "(1::nat) < length ?before"
    unfolding b by simp_all
  from f[THEN spec, THEN mp, OF i0]
  have r0: "rows (load_data (orders_sheet wb')) ! 0 = sample_order 1 1 ''Processing''"
    unfolding b by (simp add: Let_def sample_order_def)
  from f[THEN spec, THEN mp, OF i1] g
  have r1: "status (rows (load_data (orders_sheet wb')) ! 1) = ''Completed''
      \<and> total_fee (rows (load_data (orders_sheet wb')) ! 1) = 5000"
    unfolding b by (simp add: Let_def sample_order_def)
  from d c p r0 r1 show ?thesis by (intro exI[of _ wb'] conjI) simp_all
qed












section \<open>Properties of the colour of a day\<close>

text \<open>The chain of tests of \<open>day_color\<close>, with the test that never decides left out.\<close>

lemma day_color_eq:
  "day_color d today day_orders =
     (if day_orders = [] then ''#eceff1''
      else if \<forall>r \<in> set day_orders. status r = ''Completed'' then ''#4caf50''
      else if \<exists>r \<in> set day_orders. status r = ''Scheduled Pickup'' \<or> status r = ''Processing''
        then ''#ffeb3b''
      else if date_less d today then ''#f44336'' else ''#90caf9'')"
  unfolding day_color_def list_all_iff list_ex_iff by auto

text \<open>
  Claim C5. The colour of a day follows this order of tests: grey (\<open>#eceff1\<close>) without
  orders; green (\<open>#4caf50\<close>) when all orders are Completed; yellow (\<open>#ffeb3b\<close>) when
  some order is in Scheduled Pickup or Processing, whatever the date; otherwise red
  (\<open>#f44336\<close>) when the date is before today and some order is not Completed; otherwise
  blue (\<open>#90caf9\<close>). So a past date with one Ready order is red.
\<close>

theorem day_color_branches:
  "(day_orders = [] \<longrightarrow> day_color d today day_orders = ''#eceff1'')
   \<and> (day_orders \<noteq> [] \<and> (\<forall>r \<in> set day_orders. status r = ''Completed'')
        \<longrightarrow> day_color d today day_orders = ''#4caf50'')
   \<and> ((\<exists>r \<in> set day_orders. status r = ''Scheduled Pickup'' \<or> status r = ''Processing'')
        \<longrightarrow> day_color d today day_orders = ''#ffeb3b'')
   \<and> ((\<forall>r \<in> set day_orders. status r \<noteq> ''Scheduled Pickup'' \<and> status r \<noteq> ''Processing'')
        \<and> (\<exists>r \<in> set day_orders. status r \<noteq> ''Completed'') \<and> date_less d today
        \<longrightarrow> day_color d today day_orders = ''#f44336'')
   \<and> ((\<forall>r \<in> set day_orders. status r \<noteq> ''Scheduled Pickup'' \<and> status r \<noteq> ''Processing'')
        \<and> (\<exists>r \<in> set day_orders. status r \<noteq> ''Completed'') \<and> \<not> date_less d today
        \<longrightarrow> day_color d today day_orders = ''#90caf9'')"
proof (intro conjI impI)
  assume "day_orders = []"
  then show "day_color d today day_orders = ''#eceff1''" by (simp add: day_color_eq)
next
  assume "day_orders \<noteq> [] \<and> (\<forall>r \<in> set day_orders. status r = ''Completed'')"
  then show "day_color d today day_orders = ''#4caf50''" by (simp add: day_color_eq)
next
  assume a: "\<exists>r \<in> set day_orders. status r = ''Scheduled Pickup'' \<or> status r = ''Processing''"
  then have "day_orders \<noteq> []" by auto
  moreover have "\<not> (\<forall>r \<in> set day_orders. status r = ''Completed'')"
  proof -
    from a obtain r where r: "r \<in> set day_orders"
      "status r = ''Scheduled Pickup'' \<or> status r = ''Processing''" by blast
    from r(2) have "status r \<noteq> ''Completed''" by auto
    with r(1) show ?thesis by blast
  qed
  ultimately show "day_color d today day_orders = ''#ffeb3b''" using a
    by (simp only: day_color_eq if_True if_False)
next
  assume a: "(\<forall>r \<in> set day_orders. status r \<noteq> ''Scheduled Pickup'' \<and> status r \<noteq> ''Processing'')
        \<and> (\<exists>r \<in> set day_orders. status r \<noteq> ''Completed'') \<and> date_less d today"
  then have "day_orders \<noteq> []" by auto
  moreover have "\<not> (\<forall>r \<in> set day_orders. status r = ''Completed'')" using a by blast
  moreover have "\<not> (\<exists>r \<in> set day_orders. status r = ''Scheduled Pickup'' \<or> status r = ''Processing'')"
    using a by blast
  ultimately show "day_color d today day_orders = ''#f44336''" using a
    by (simp only: day_color_eq if_True if_False)
next
  assume a: "(\<forall>r \<in> set day_orders. status r \<noteq> ''Scheduled Pickup'' \<and> status r \<noteq> ''Processing'')
        \<and> (\<exists>r \<in> set day_orders. status r \<noteq> ''Completed'') \<and> \<not> date_less d today"
  then have "day_orders \<noteq> []" by auto
  moreover have "\<not> (\<forall>r \<in> set day_orders. status r = ''Completed'')" using a by blast
  moreover have "\<not> (\<exists>r \<in> set day_orders. status r = ''Scheduled Pickup'' \<or> status r = ''Processing'')"
    using a by blast
  ultimately show "day_color d today day_orders = ''#90caf9''" using a
    by (simp only: day_color_eq if_True if_False)
qed

theorem day_color_branches_witness:
  "day_color (2025, 1, 8) (2025, 2, 1) [] = ''#eceff1''
   \<and> day_color (2025, 1, 8) (2025, 2, 1) [sample_order 3 2 ''Completed''] = ''#4caf50''
   \<and> day_color (2025, 1, 8) (2025, 2, 1)
        [sample_order 1 1 ''Processing'', sample_order 3 2 ''Completed''] = ''#ffeb3b''
   \<and> day_color (2025, 1, 8) (2025, 2, 1) [sample_order 2 1 ''Ready''] = ''#f44336''
   \<and> day_color (2025, 1, 8) (2025, 1, 8) [sample_order 2 1 ''Ready''] = ''#90caf9''"
proof -
  let ?d = "(2025, 1, 8) :: date" and ?t = "(2025, 2, 1) :: date"
  have a: "day_color ?d ?t [] = ''#eceff1''"
    using day_color_branches[of "[]" ?d ?t] by simp
  have b: "day_color ?d ?t [sample_order 3 2 ''Completed''] = ''#4caf50''"
    using day_color_branches[of "[sample_order 3 2 ''Completed'']" ?d ?t]
    by (simp add: sample_order_def)
  have c: "day_color ?d ?t [sample_order 1 1 ''Processing'', sample_order 3 2 ''Completed'']
      = ''#ffeb3b''"
    using day_color_branches[of "[sample_order 1 1 ''Processing'', sample_order 3 2 ''Completed'']" ?d ?t]
    by (simp add: sample_order_def)
  have d: "day_color ?d ?t [sample_order 2 1 ''Ready''] = ''#f44336''"
    using day_color_branches[of "[sample_order 2 1 ''Ready'']" ?d ?t]
    by (simp add: sample_order_def)
  have e: "day_color ?d ?d [sample_order 2 1 ''Ready''] = ''#90caf9''"
    using day_color_branches[of "[sample_order 2 1 ''Ready'']" ?d ?d]
    by (simp add: sample_order_def)
  from a b c d e show ?thesis by (intro conjI)
qed

section \<open>Properties of the change of profit\<close>

lemma profit_change_short: "length profit < 2 \<Longrightarrow> profit_change profit = 0"
  by (simp add: profit_change_def profit_metrics_def)

lemma profit_change_two:
  "profit_change (ms @ [prior, latest]) = (if prior = 0 then 0 else (latest - prior) / prior * 100)"
  by (simp add: profit_change_def profit_metrics_def Let_def nth_append)

text \<open>
  Claim C8. The change of profit is exactly 0 with fewer than two months of data and
  when the profit of the month before the last is 0; otherwise it is the change from that
  month to the last, in percent of that month's profit.
\<close>

theorem profit_change_spec:
  "(length profit < 2 \<longrightarrow> profit_change profit = 0)
   \<and> profit_change (months @ [0, latest]) = 0
   \<and> (prior \<noteq> 0 \<longrightarrow>
        profit_change (months @ [prior, latest]) = (latest - prior) / prior * 100)"
  using profit_change_short[of profit] profit_change_two[of months 0 latest]
    profit_change_two[of months prior latest]
  by simp

theorem profit_change_spec_witness:
  "profit_change [] = 0 \<and> profit_change [100] = 0 \<and> profit_change [100, 0, 150] = 0
   \<and> profit_change [80, 100, 150] = 50"
proof -
  have a: "profit_change [] = 0"
    using profit_change_spec[of "[]"] by simp
  have b: "profit_change [100] = 0"
    using profit_change_spec[of "[100]"] by simp
  have c: "profit_change [100, 0, 150] = 0"
    using profit_change_spec[of "[]" "[100]" 150] by simp
  have d: "profit_change [80, 100, 150] = 50"
    using profit_change_spec[of "[]" "[80]" 150 100] by simp
  from a b c d show ?thesis by (intro conjI)
qed

section \<open>Properties of the storage adapter\<close>
















end
